theory Spec2Isabelle
  imports Main
begin

section \<open>JavaScript values, errors and strings\<close>

text \<open>
  A rejected promise or a thrown exception is a value of \<open>js_error\<close>; a function of the
  source that may throw returns \<open>js_error + 'a\<close>, with \<open>Inl\<close> for the exception.
  \<open>HttpError n\<close> is the rejection of a Google API call with HTTP status \<open>n\<close>
  (404 and 410 for an event that does not exist), \<open>Error msg\<close> is \<^verbatim>\<open>throw new Error(msg)\<close>,
  \<open>RangeError\<close> is what \<^verbatim>\<open>toISOString\<close> throws on an invalid date and \<open>SyntaxError\<close> what
  \<^verbatim>\<open>request.json()\<close> rejects with.
\<close>

datatype js_error = HttpError nat | Error string | RangeError | SyntaxError

text \<open>A value of type \<^verbatim>\<open>string | null | undefined\<close> is truthy when it is a non-empty string.\<close>

definition truthy :: "string option \<Rightarrow> bool" where
  "truthy v = (case v of None \<Rightarrow> False | Some s \<Rightarrow> s \<noteq> [])"

text \<open>\<^verbatim>\<open>s.replace(pat, rep)\<close> with a string pattern replaces the first occurrence only.\<close>

fun replace_first :: "string \<Rightarrow> string \<Rightarrow> string \<Rightarrow> string" where
  "replace_first pat rep [] = (if pat = [] then rep else [])"
| "replace_first pat rep (c # cs) =
     (if take (length pat) (c # cs) = pat then rep @ drop (length pat) (c # cs)
      else c # replace_first pat rep cs)"

section \<open>Dates\<close>

text \<open>
  A \<^verbatim>\<open>Date\<close> is its time value, the milliseconds since 1970-01-01T00:00:00Z, as an \<open>int\<close>;
  an invalid date is \<open>None\<close>. \<open>civil_from_days\<close> and \<open>days_from_civil\<close> convert between a
  day number and a proleptic Gregorian date.
\<close>

definition civil_from_days :: "int \<Rightarrow> int \<times> int \<times> int" where
  "civil_from_days days =
     (let z = days + 719468;
          era = z div 146097;
          doe = z - era * 146097;
          yoe = (doe - doe div 1460 + doe div 36524 - doe div 146096) div 365;
          doy = doe - (365 * yoe + yoe div 4 - yoe div 100);
          mp = (5 * doy + 2) div 153;
          d = doy - (153 * mp + 2) div 5 + 1;
          m = (if mp < 10 then mp + 3 else mp - 9);
          y = yoe + era * 400
      in (if m \<le> 2 then y + 1 else y, m, d))"

definition days_from_civil :: "int \<Rightarrow> int \<Rightarrow> int \<Rightarrow> int" where
  "days_from_civil y m d =
     (let y' = (if m \<le> 2 then y - 1 else y);
          era = y' div 400;
          yoe = y' - era * 400;
          doy = (153 * (if m > 2 then m - 3 else m + 9) + 2) div 5 + d - 1;
          doe = yoe * 365 + yoe div 4 - yoe div 100 + doy
      in era * 146097 + doe - 719468)"

definition digit_char :: "nat \<Rightarrow> char" where
  "digit_char n = ''0123456789'' ! (n mod 10)"

fun pad :: "nat \<Rightarrow> nat \<Rightarrow> string" where
  "pad 0 n = []"
| "pad (Suc w) n = pad w (n div 10) @ [digit_char n]"

text \<open>
  \<^verbatim>\<open>Date.prototype.toISOString\<close>: the UTC rendering \<^verbatim>\<open>YYYY-MM-DDTHH:mm:ss.sssZ\<close> (a signed
  six-digit year outside 0..9999); a time value beyond \<open>\<plusminus>8.64e15\<close> is an invalid date, on
  which the method throws a RangeError.
\<close>

definition toISOString :: "int \<Rightarrow> js_error + string" where
  "toISOString t =
     (if \<bar>t\<bar> > 8640000000000000 then Inl RangeError
      else
        let (y, m, d) = civil_from_days (t div 86400000);
            ms = t mod 86400000;
            year = (if 0 \<le> y \<and> y \<le> 9999 then pad 4 (nat y)
                    else (if y < 0 then ''-'' else ''+'') @ pad 6 (nat \<bar>y\<bar>))
        in Inr (year @ ''-'' @ pad 2 (nat m) @ ''-'' @ pad 2 (nat d) @ ''T''
                @ pad 2 (nat (ms div 3600000)) @ '':''
                @ pad 2 (nat (ms mod 3600000 div 60000)) @ '':''
                @ pad 2 (nat (ms mod 60000 div 1000)) @ ''.''
                @ pad 3 (nat (ms mod 1000)) @ ''Z''))"

definition digit_of :: "char \<Rightarrow> int option" where
  "digit_of c = map_of [(CHR ''0'', 0), (CHR ''1'', 1), (CHR ''2'', 2), (CHR ''3'', 3),
     (CHR ''4'', 4), (CHR ''5'', 5), (CHR ''6'', 6), (CHR ''7'', 7), (CHR ''8'', 8),
     (CHR ''9'', 9)] c"

fun number_of :: "int \<Rightarrow> string \<Rightarrow> int option" where
  "number_of acc [] = Some acc"
| "number_of acc (c # cs) =
     (case digit_of c of None \<Rightarrow> None | Some v \<Rightarrow> number_of (acc * 10 + v) cs)"

definition days_in_month :: "int \<Rightarrow> int \<Rightarrow> int" where
  "days_in_month y m =
     (if m = 2 then (if y mod 4 = 0 \<and> (y mod 100 \<noteq> 0 \<or> y mod 400 = 0) then 29 else 28)
      else if m = 4 \<or> m = 6 \<or> m = 9 \<or> m = 11 then 30 else 31)"

text \<open>
  \<^verbatim>\<open>new Date(string)\<close> belongs to the host, so the environment below carries it as
  \<open>Date_parse\<close>. \<open>parse_local_date_time tza\<close> is the instance used for concrete hosts: the
  ECMAScript date-time form \<^verbatim>\<open>YYYY-MM-DDTHH:mm:ss\<close> without an offset, which the language
  reads as local time; \<open>tza\<close> gives the offset of the host's time zone from UTC, in
  milliseconds, at a local time value. Every other string is an invalid date on these
  hosts, which makes them stricter than the V8 engine: that one also accepts hour 24 and
  a day up to 31 in every month. The hosts are used on well-formed dates and times only.
\<close>

definition well_shaped :: "string \<Rightarrow> bool" where
  "well_shaped s = (length s = 19 \<and> s ! 4 = CHR ''-'' \<and> s ! 7 = CHR ''-''
     \<and> s ! 10 = CHR ''T'' \<and> s ! 13 = CHR '':'' \<and> s ! 16 = CHR '':'')"

definition parse_local_date_time :: "(int \<Rightarrow> int) \<Rightarrow> string \<Rightarrow> int option" where
  "parse_local_date_time tza s =
     (if well_shaped s then
        case (number_of 0 (take 4 s), number_of 0 (take 2 (drop 5 s)),
              number_of 0 (take 2 (drop 8 s)), number_of 0 (take 2 (drop 11 s)),
              number_of 0 (take 2 (drop 14 s)), number_of 0 (take 2 (drop 17 s))) of
          (Some y, Some m, Some d, Some hh, Some mi, Some ss) \<Rightarrow>
            if 1 \<le> m \<and> m \<le> 12 \<and> 1 \<le> d \<and> d \<le> days_in_month y m
               \<and> hh \<le> 23 \<and> mi \<le> 59 \<and> ss \<le> 59
            then let local = days_from_civil y m d * 86400000 + hh * 3600000
                               + mi * 60000 + ss * 1000
                 in Some (local - tza local)
            else None
        | _ \<Rightarrow> None
      else None)"

section \<open>The stores, the external services and the environment\<close>

text \<open>Table \<^verbatim>\<open>google_oauth_tokens\<close>: one row per user (\<^verbatim>\<open>user_id\<close> is UNIQUE).\<close>

record oauth_tokens =
  user_id :: string
  access_token :: string
  refresh_token :: string
  expires_at :: int
  scope :: string
  token_type :: string
  tokens_updated_at :: "int option"

text \<open>Table \<^verbatim>\<open>tasks\<close>, the columns the calendar routes read or write.\<close>

record task =
  task_id :: string
  title :: string
  description :: "string option"
  due_date :: "string option"
  due_time :: "string option"
  duration :: "int option"
  status :: string
  priority :: int
  google_calendar_event_id :: "string option"
  updated_at :: "int option"

text \<open>Table \<^verbatim>\<open>calendar_sync_log\<close>.\<close>

record sync_log =
  log_user_id :: string
  log_task_id :: string
  log_event_id :: string
  log_action :: string
  log_status :: string

text \<open>The interface \<^verbatim>\<open>TaskEvent\<close> and the Google schemas \<^verbatim>\<open>EventDateTime\<close>, \<^verbatim>\<open>Event\<close>.\<close>

record TaskEvent =
  te_id :: "string option"
  te_title :: string
  te_description :: "string option"
  dueDate :: "string option"
  dueTime :: "string option"
  te_duration :: "int option"
  te_status :: string
  te_priority :: int

record EventDateTime =
  date :: "string option"
  dateTime :: "string option"
  timeZone :: "string option"

record Event =
  summary :: string
  event_description :: string
  event_start :: "EventDateTime option"
  event_end :: "EventDateTime option"
  colorId :: string
  event_status :: string

text \<open>The calendar client holds the credentials it was created with.\<close>

record calendar =
  client_access_token :: string
  client_refresh_token :: string

definition createCalendarClient :: "string \<Rightarrow> string \<Rightarrow> calendar" where
  "createCalendarClient accessToken refreshToken =
     \<lparr>client_access_token = accessToken, client_refresh_token = refreshToken\<rparr>"

text \<open>The requests the code sends to the calendar service (calendar \<^verbatim>\<open>primary\<close>).\<close>

datatype api_call =
    events_insert calendar Event
  | events_patch calendar string Event
  | events_delete calendar string

fun is_insert :: "api_call \<Rightarrow> bool" where
  "is_insert (events_insert c e) = True"
| "is_insert (events_patch c i e) = False"
| "is_insert (events_delete c i) = False"

text \<open>The answer of \<^verbatim>\<open>oauth2Client.refreshAccessToken()\<close>.\<close>

record credentials =
  cred_access_token :: "string option"
  cred_expiry_date :: "int option"

text \<open>
  The state is the three tables and, as a history variable, the list of requests sent to
  the calendar service so far. The store is reliable: a read returns the row, a write is
  applied (the routes ignore the error value of every write).
\<close>

record world =
  google_oauth_tokens :: "string \<rightharpoonup> oauth_tokens"
  tasks :: "string \<rightharpoonup> task"
  calendar_sync_log :: "sync_log list"
  requests :: "api_call list"

text \<open>
  What one request cannot control: the clock (read once per request), the session service
  (\<^verbatim>\<open>supabase.auth.getUser\<close>), which rows of \<^verbatim>\<open>tasks\<close> the anonymous-key client may read,
  the answers of the OAuth token endpoint and of the calendar service (\<open>Inr\<close> carries
  \<^verbatim>\<open>response.data.id\<close>), and the host's \<^verbatim>\<open>new Date(string)\<close>.
\<close>

record env =
  now :: int
  getUser :: "string \<Rightarrow> string option"
  anon_visible :: "string \<Rightarrow> bool"
  oauth_refresh :: "string \<Rightarrow> js_error + credentials"
  calendar_api :: "api_call \<Rightarrow> js_error + string option"
  Date_parse :: "string \<Rightarrow> int option"

text \<open>\<^verbatim>\<open>.update(f).eq(key, k)\<close>: the row with that key, if there is one, gets the new columns.\<close>

definition update_row :: "('k \<rightharpoonup> 'r) \<Rightarrow> 'k \<Rightarrow> ('r \<Rightarrow> 'r) \<Rightarrow> ('k \<rightharpoonup> 'r)" where
  "update_row tbl k f = (case tbl k of None \<Rightarrow> tbl | Some r \<Rightarrow> tbl(k \<mapsto> f r))"

section \<open>Credential manager\<close>

record refreshed =
  new_access_token :: string
  expiry_date :: int

definition refreshAccessToken ::
  "(string \<Rightarrow> js_error + credentials) \<Rightarrow> int \<Rightarrow> string \<Rightarrow> js_error + refreshed" where
  "refreshAccessToken endpoint date_now refreshToken =
     (case endpoint refreshToken of
        Inl e \<Rightarrow> Inl e
      | Inr creds \<Rightarrow>
          (case cred_access_token creds of
             None \<Rightarrow> Inl (Error ''Failed to refresh access token'')
           | Some a \<Rightarrow>
               if a = [] then Inl (Error ''Failed to refresh access token'')
               else Inr \<lparr>new_access_token = a,
                         expiry_date = (case cred_expiry_date creds of
                                          None \<Rightarrow> date_now + 3600000
                                        | Some d \<Rightarrow> if d = 0 then date_now + 3600000 else d)\<rparr>))"

definition getValidTokens :: "env \<Rightarrow> world \<Rightarrow> string \<Rightarrow> oauth_tokens option \<times> world" where
  "getValidTokens env w userId =
     (case google_oauth_tokens w userId of
        None \<Rightarrow> (None, w)
      | Some tokens \<Rightarrow>
          if expires_at tokens \<le> now env then
            (case refreshAccessToken (oauth_refresh env) (now env) (refresh_token tokens) of
               Inl e \<Rightarrow> (None, w)
             | Inr newTokens \<Rightarrow>
                 (case toISOString (expiry_date newTokens) of
                    Inl e \<Rightarrow> (None, w)
                  | Inr expires_iso \<Rightarrow>
                      (Some (tokens\<lparr>access_token := new_access_token newTokens\<rparr>),
                       w\<lparr>google_oauth_tokens :=
                            update_row (google_oauth_tokens w) userId
                              (\<lambda>row. row\<lparr>access_token := new_access_token newTokens,
                                         expires_at := expiry_date newTokens,
                                         tokens_updated_at := Some (now env)\<rparr>)\<rparr>)))
          else (Some tokens, w))"

section \<open>External event mapper\<close>

definition formatDateForAllDay :: "string \<Rightarrow> string" where
  "formatDateForAllDay dateStr =
     (if CHR ''T'' \<in> set dateStr then takeWhile (\<lambda>c. c \<noteq> CHR ''T'') dateStr else dateStr)"

text \<open>
  The glyphs of the description are the byte sequences the source file holds between the
  quotes; \<open>newline\<close> is \<^verbatim>\<open>\n\<close>. The two lookups are tables over the statuses and
  priorities a stored row can have (the columns carry CHECK constraints); a status that
  names a member of \<^verbatim>\<open>Object.prototype\<close> is outside the table.
\<close>

definition newline :: string where
  "newline = [CHR 0x0A]"

definition statusEmoji :: "string \<Rightarrow> string" where
  "statusEmoji s =
     (if s = ''backlog'' then
        [CHR 0xC4, CHR 0x91, CHR 0xC5, CHR 0xBA, CHR 0xE2, CHR 0x80, CHR 0x9C, CHR 0xE2, CHR 0x80, CHR 0xB9]
      else if s = ''todo'' then
        [CHR 0xC4, CHR 0x91, CHR 0xC5, CHR 0xBA, CHR 0xE2, CHR 0x80, CHR 0x9C, CHR 0xC5, CHR 0xA5]
      else if s = ''in_progress'' then
        [CHR 0xC4, CHR 0x91, CHR 0xC5, CHR 0xBA, CHR 0xE2, CHR 0x80, CHR 0x9D, CHR 0xE2, CHR 0x80, CHR 0x9E]
      else if s = ''done'' then
        [CHR 0xC3, CHR 0xA2, CHR 0xC5, CHR 0x9B, CHR 0xE2, CHR 0x80, CHR 0xA6]
      else if s = ''cancelled'' then
        [CHR 0xC3, CHR 0xA2, CHR 0xC5, CHR 0xA5, CHR 0xC5, CHR 0x9A]
      else
        [CHR 0xC4, CHR 0x91, CHR 0xC5, CHR 0xBA, CHR 0xE2, CHR 0x80, CHR 0x9C, CHR 0xE2, CHR 0x80, CHR 0xB9])"

definition priorityText :: "int \<Rightarrow> string" where
  "priorityText p =
     (if p = 1 then ''Low'' else if p = 2 then ''Medium'' else if p = 3 then ''High''
      else if p = 4 then ''Urgent'' else ''No priority'')"

definition formatEventDescription :: "TaskEvent \<Rightarrow> string" where
  "formatEventDescription task =
     statusEmoji (te_status task) @ '' Status: '' @ replace_first ''_'' '' '' (te_status task)
       @ newline
     @ [CHR 0xC4, CHR 0x91, CHR 0xC5, CHR 0xBA, CHR 0xC5, CHR 0xBD, CHR 0xC5, CHR 0xBB]
       @ '' Priority: '' @ priorityText (te_priority task) @ newline
     @ (case te_description task of
          None \<Rightarrow> []
        | Some d \<Rightarrow> if d = [] then [] else newline @ d)
     @ newline @ newline @ ''---'' @ newline @ ''Synced from Parallel Task''"

definition getPriorityColorId :: "int \<Rightarrow> string" where
  "getPriorityColorId p =
     (if p = 4 then ''11'' else if p = 3 then ''6'' else if p = 2 then ''5''
      else if p = 1 then ''8'' else ''1'')"

text \<open>
  The timed branch, written twice in the source (in \<^verbatim>\<open>createCalendarEvent\<close> and in
  \<^verbatim>\<open>updateCalendarEvent\<close>) with the same text: the start is parsed by the host from
  \<^verbatim>\<open>`${dateOnly}T${task.dueTime}:00`\<close>, the end is \<^verbatim>\<open>(task.duration || 60) * 60 * 1000\<close>
  milliseconds later, both are sent as \<^verbatim>\<open>toISOString()\<close> with the label Europe/Paris.
\<close>

definition durationMs :: "int option \<Rightarrow> int" where
  "durationMs dur = (case dur of None \<Rightarrow> 60 | Some n \<Rightarrow> if n = 0 then 60 else n) * 60 * 1000"

definition timed :: "string \<Rightarrow> EventDateTime" where
  "timed s = \<lparr>date = None, dateTime = Some s, timeZone = Some ''Europe/Paris''\<rparr>"

definition allDay :: "string \<Rightarrow> EventDateTime" where
  "allDay d = \<lparr>date = Some d, dateTime = None, timeZone = None\<rparr>"

definition timedStartEnd ::
  "env \<Rightarrow> string \<Rightarrow> string \<Rightarrow> int option \<Rightarrow> js_error + (EventDateTime \<times> EventDateTime)" where
  "timedStartEnd env dd dt dur =
     (let dateOnly = formatDateForAllDay dd in
      case Date_parse env (dateOnly @ ''T'' @ dt @ '':00'') of
        None \<Rightarrow> Inl RangeError
      | Some startDateTime \<Rightarrow>
          (case toISOString startDateTime of
             Inl e \<Rightarrow> Inl e
           | Inr s \<Rightarrow>
               (case toISOString (startDateTime + durationMs dur) of
                  Inl e \<Rightarrow> Inl e
                | Inr e \<Rightarrow> Inr (timed s, timed e))))"

text \<open>
  The request body of \<^verbatim>\<open>createCalendarEvent\<close> (lines 128 to 159). The chain
  \<^verbatim>\<open>if (task.dueDate && task.dueTime) ... else if (task.dueDate) ... else ...\<close> is the
  case analysis on the two optional strings, an empty string counting as absent.
\<close>

definition nowStartEnd :: "env \<Rightarrow> js_error + (EventDateTime \<times> EventDateTime)" where
  "nowStartEnd env =
     (case toISOString (now env) of
        Inl e \<Rightarrow> Inl e
      | Inr s \<Rightarrow>
          (case toISOString (now env + 3600000) of
             Inl e \<Rightarrow> Inl e
           | Inr e \<Rightarrow> Inr (timed s, timed e)))"

definition allDayStartEnd :: "string \<Rightarrow> EventDateTime \<times> EventDateTime" where
  "allDayStartEnd dd =
     (let dateOnly = formatDateForAllDay dd in (allDay dateOnly, allDay dateOnly))"

definition createStartEnd :: "env \<Rightarrow> TaskEvent \<Rightarrow> js_error + (EventDateTime \<times> EventDateTime)" where
  "createStartEnd env task =
     (case dueDate task of
        None \<Rightarrow> nowStartEnd env
      | Some dd \<Rightarrow>
          if dd = [] then nowStartEnd env
          else
            (case dueTime task of
               None \<Rightarrow> Inr (allDayStartEnd dd)
             | Some dt \<Rightarrow>
                 if dt = [] then Inr (allDayStartEnd dd)
                 else timedStartEnd env dd dt (te_duration task)))"

definition createEvent :: "env \<Rightarrow> TaskEvent \<Rightarrow> js_error + Event" where
  "createEvent env task =
     (case createStartEnd env task of
        Inl e \<Rightarrow> Inl e
      | Inr (start, end) \<Rightarrow>
          Inr \<lparr>summary = te_title task,
               event_description = formatEventDescription task,
               event_start = Some start,
               event_end = Some end,
               colorId = getPriorityColorId (te_priority task),
               event_status = (if te_status task = ''cancelled'' then ''cancelled''
                               else ''confirmed'')\<rparr>)"

text \<open>The request body of \<^verbatim>\<open>updateCalendarEvent\<close> (lines 191 to 218): no fallback to now.\<close>

definition some_both :: "EventDateTime \<times> EventDateTime \<Rightarrow> EventDateTime option \<times> EventDateTime option" where
  "some_both p = (Some (fst p), Some (snd p))"

definition updateStartEnd ::
  "env \<Rightarrow> TaskEvent \<Rightarrow> js_error + (EventDateTime option \<times> EventDateTime option)" where
  "updateStartEnd env task =
     (case dueDate task of
        None \<Rightarrow> Inr (None, None)
      | Some dd \<Rightarrow>
          if dd = [] then Inr (None, None)
          else
            (case dueTime task of
               None \<Rightarrow> Inr (some_both (allDayStartEnd dd))
             | Some dt \<Rightarrow>
                 if dt = [] then Inr (some_both (allDayStartEnd dd))
                 else map_sum id some_both (timedStartEnd env dd dt (te_duration task))))"

definition updateEvent :: "env \<Rightarrow> TaskEvent \<Rightarrow> js_error + Event" where
  "updateEvent env task =
     (case updateStartEnd env task of
        Inl e \<Rightarrow> Inl e
      | Inr (start, end) \<Rightarrow>
          Inr \<lparr>summary = te_title task,
               event_description = formatEventDescription task,
               event_start = start,
               event_end = end,
               colorId = getPriorityColorId (te_priority task),
               event_status = (if te_status task = ''cancelled'' then ''cancelled''
                               else ''confirmed'')\<rparr>)"

section \<open>Calls to the calendar service\<close>

definition send :: "env \<Rightarrow> api_call \<Rightarrow> world \<Rightarrow> (js_error + string option) \<times> world" where
  "send env call w = (calendar_api env call, w\<lparr>requests := requests w @ [call]\<rparr>)"

definition createCalendarEvent ::
  "env \<Rightarrow> calendar \<Rightarrow> TaskEvent \<Rightarrow> world \<Rightarrow> (js_error + string) \<times> world" where
  "createCalendarEvent env cal task w =
     (case createEvent env task of
        Inl e \<Rightarrow> (Inl e, w)
      | Inr event \<Rightarrow>
          (case send env (events_insert cal event) w of
             (Inl e, w') \<Rightarrow> (Inl e, w')
           | (Inr None, w') \<Rightarrow> (Inl (Error ''Failed to create calendar event''), w')
           | (Inr (Some i), w') \<Rightarrow>
               if i = [] then (Inl (Error ''Failed to create calendar event''), w')
               else (Inr i, w')))"

definition updateCalendarEvent ::
  "env \<Rightarrow> calendar \<Rightarrow> string \<Rightarrow> TaskEvent \<Rightarrow> world \<Rightarrow> (js_error + unit) \<times> world" where
  "updateCalendarEvent env cal eventId task w =
     (case updateEvent env task of
        Inl e \<Rightarrow> (Inl e, w)
      | Inr event \<Rightarrow>
          (case send env (events_patch cal eventId event) w of
             (Inl e, w') \<Rightarrow> (Inl e, w')
           | (Inr r, w') \<Rightarrow> (Inr (), w')))"

definition deleteCalendarEvent ::
  "env \<Rightarrow> calendar \<Rightarrow> string \<Rightarrow> world \<Rightarrow> (js_error + unit) \<times> world" where
  "deleteCalendarEvent env cal eventId w =
     (case send env (events_delete cal eventId) w of
        (Inl e, w') \<Rightarrow> (Inl e, w')
      | (Inr r, w') \<Rightarrow> (Inr (), w'))"

section \<open>Sync orchestrator: the routes of /api/calendar/sync\<close>

record post_body =
  taskId :: "string option"
  action :: "string option"

text \<open>A request: the authorization header and the JSON body (\<open>None\<close> when it does not parse).\<close>

record post_request =
  authorization :: "string option"
  body :: "post_body option"

record delete_request =
  del_authorization :: "string option"
  del_taskId :: "string option"

text \<open>
  The responses of the two routes:
  \<open>Unauthorized\<close> is 401 \<^verbatim>\<open>{error: 'Unauthorized'}\<close>,
  \<open>TaskIdRequired\<close> is 400 \<^verbatim>\<open>{error: 'Task ID required'}\<close>,
  \<open>NotConnected\<close> is 401 \<^verbatim>\<open>{error: 'Google Calendar not connected', needsAuth: true}\<close>,
  \<open>TaskNotFound\<close> is 404 \<^verbatim>\<open>{error: 'Task not found'}\<close>,
  \<open>Deleted\<close>, \<open>Updated eventId\<close> and \<open>Created eventId\<close> are 200
  \<^verbatim>\<open>{success: true, action, eventId}\<close>,
  \<open>SyncFailed e\<close> is 500 \<^verbatim>\<open>{error: 'Failed to sync to calendar', details: String(e)}\<close>,
  \<open>Success\<close> is the 200 \<^verbatim>\<open>{success: true}\<close> of the DELETE route.
\<close>

datatype response =
    Unauthorized
  | TaskIdRequired
  | NotConnected
  | TaskNotFound
  | Deleted
  | Updated string
  | Created string
  | SyncFailed js_error
  | Success

fun status_code :: "response \<Rightarrow> nat" where
  "status_code Unauthorized = 401"
| "status_code TaskIdRequired = 400"
| "status_code NotConnected = 401"
| "status_code TaskNotFound = 404"
| "status_code Deleted = 200"
| "status_code (Updated i) = 200"
| "status_code (Created i) = 200"
| "status_code (SyncFailed e) = 500"
| "status_code Success = 200"

fun needsAuth :: "response \<Rightarrow> bool" where
  "needsAuth NotConnected = True"
| "needsAuth Unauthorized = False"
| "needsAuth TaskIdRequired = False"
| "needsAuth TaskNotFound = False"
| "needsAuth Deleted = False"
| "needsAuth (Updated i) = False"
| "needsAuth (Created i) = False"
| "needsAuth (SyncFailed e) = False"
| "needsAuth Success = False"

text \<open>What POST holds after it has read the task row (line 118).\<close>

record sync_ctx =
  ctx_user :: string
  ctx_taskId :: string
  ctx_action :: "string option"
  ctx_tokens :: oauth_tokens
  ctx_task :: task

text \<open>
  POST, lines 67 to 118: authentication, the body, the tokens, the task row. The result is
  an early response or the context for the rest of the handler.
\<close>

definition POST_read :: "env \<Rightarrow> post_request \<Rightarrow> world \<Rightarrow> (response + sync_ctx) \<times> world" where
  "POST_read env req w =
     (case authorization req of
        None \<Rightarrow> (Inl Unauthorized, w)
      | Some authHeader \<Rightarrow>
          if authHeader = [] then (Inl Unauthorized, w)
          else
            (case getUser env (replace_first ''Bearer '' [] authHeader) of
               None \<Rightarrow> (Inl Unauthorized, w)
             | Some user \<Rightarrow>
                 (case body req of
                    None \<Rightarrow> (Inl (SyncFailed SyntaxError), w)
                  | Some b \<Rightarrow>
                      (case taskId b of
                         None \<Rightarrow> (Inl TaskIdRequired, w)
                       | Some tid \<Rightarrow>
                           if tid = [] then (Inl TaskIdRequired, w)
                           else
                             (case getValidTokens env w user of
                                (None, w') \<Rightarrow> (Inl NotConnected, w')
                              | (Some tokens, w') \<Rightarrow>
                                  (case tasks w' tid of
                                     None \<Rightarrow> (Inl TaskNotFound, w')
                                   | Some t \<Rightarrow>
                                       (Inr \<lparr>ctx_user = user, ctx_taskId = tid,
                                             ctx_action = action b, ctx_tokens = tokens,
                                             ctx_task = t\<rparr>, w')))))))"

definition ctx_calendar :: "sync_ctx \<Rightarrow> calendar" where
  "ctx_calendar ctx =
     createCalendarClient (access_token (ctx_tokens ctx)) (refresh_token (ctx_tokens ctx))"

definition taskEvent :: "task \<Rightarrow> TaskEvent" where
  "taskEvent t =
     \<lparr>te_id = Some (task_id t), te_title = title t, te_description = description t,
      dueDate = due_date t, dueTime = due_time t, te_duration = duration t,
      te_status = status t, te_priority = priority t\<rparr>"

definition set_event_id :: "env \<Rightarrow> string \<Rightarrow> string option \<Rightarrow> world \<Rightarrow> world" where
  "set_event_id env tid v w =
     w\<lparr>tasks := update_row (tasks w) tid
                  (\<lambda>row. row\<lparr>google_calendar_event_id := v, updated_at := Some (now env)\<rparr>)\<rparr>"

definition log_success :: "sync_ctx \<Rightarrow> string \<Rightarrow> string \<Rightarrow> world \<Rightarrow> world" where
  "log_success ctx eventId act w =
     w\<lparr>calendar_sync_log := calendar_sync_log w @
          [\<lparr>log_user_id = ctx_user ctx, log_task_id = ctx_taskId ctx, log_event_id = eventId,
            log_action = act, log_status = ''success''\<rparr>]\<rparr>"

text \<open>Lines 126 to 149: \<^verbatim>\<open>action === 'delete' && eventId\<close>.\<close>

definition POST_delete :: "env \<Rightarrow> sync_ctx \<Rightarrow> string \<Rightarrow> world \<Rightarrow> response \<times> world" where
  "POST_delete env ctx eventId w =
     (case deleteCalendarEvent env (ctx_calendar ctx) eventId w of
        (Inl e, w') \<Rightarrow> (SyncFailed e, w')
      | (Inr u, w') \<Rightarrow>
          (Deleted, log_success ctx eventId ''delete'' (set_event_id env (ctx_taskId ctx) None w')))"

text \<open>Lines 162 to 177: the task has an event id, the event is patched.\<close>

definition POST_update :: "env \<Rightarrow> sync_ctx \<Rightarrow> string \<Rightarrow> world \<Rightarrow> response \<times> world" where
  "POST_update env ctx eventId w =
     (case updateCalendarEvent env (ctx_calendar ctx) eventId (taskEvent (ctx_task ctx)) w of
        (Inl e, w') \<Rightarrow> (SyncFailed e, w')
      | (Inr u, w') \<Rightarrow> (Updated eventId, log_success ctx eventId ''update'' w'))"

text \<open>Lines 178 to 204: no event id, an event is created and its id written to the row.\<close>

definition POST_create :: "env \<Rightarrow> sync_ctx \<Rightarrow> world \<Rightarrow> response \<times> world" where
  "POST_create env ctx w =
     (case createCalendarEvent env (ctx_calendar ctx) (taskEvent (ctx_task ctx)) w of
        (Inl e, w') \<Rightarrow> (SyncFailed e, w')
      | (Inr eventId, w') \<Rightarrow>
          (Created eventId,
           log_success ctx eventId ''create'' (set_event_id env (ctx_taskId ctx) (Some eventId) w')))"

text \<open>
  POST, lines 120 to 204: the branch is chosen on the event id of the row as it was read,
  \<^verbatim>\<open>let eventId = task.google_calendar_event_id\<close>.
\<close>

definition POST_write :: "env \<Rightarrow> sync_ctx \<Rightarrow> world \<Rightarrow> response \<times> world" where
  "POST_write env ctx w =
     (case google_calendar_event_id (ctx_task ctx) of
        None \<Rightarrow> POST_create env ctx w
      | Some eventId \<Rightarrow>
          if ctx_action ctx = Some ''delete'' \<and> eventId \<noteq> [] then POST_delete env ctx eventId w
          else if eventId \<noteq> [] then POST_update env ctx eventId w
          else POST_create env ctx w)"

definition POST :: "env \<Rightarrow> post_request \<Rightarrow> world \<Rightarrow> response \<times> world" where
  "POST env req w =
     (case POST_read env req w of
        (Inl r, w') \<Rightarrow> (r, w')
      | (Inr ctx, w') \<Rightarrow> POST_write env ctx w')"

text \<open>
  Two POST requests served at the same time. Each \<^verbatim>\<open>await\<close> lets the other handler run;
  \<open>sync_interleaved\<close> is the schedule in which both handlers have read the task row
  (line 112) before either goes on to the calendar call and the write.
\<close>

definition sync_interleaved ::
  "env \<Rightarrow> post_request \<Rightarrow> env \<Rightarrow> post_request \<Rightarrow> world \<Rightarrow> (response \<times> response) \<times> world" where
  "sync_interleaved env1 req1 env2 req2 w =
     (case POST_read env1 req1 w of
        (Inl r1, w1) \<Rightarrow> (case POST env2 req2 w1 of (r2, w2) \<Rightarrow> ((r1, r2), w2))
      | (Inr ctx1, w1) \<Rightarrow>
          (case POST_read env2 req2 w1 of
             (Inl r2, w2) \<Rightarrow> (case POST_write env1 ctx1 w2 of (r1, w3) \<Rightarrow> ((r1, r2), w3))
           | (Inr ctx2, w2) \<Rightarrow>
               (case POST_write env1 ctx1 w2 of
                  (r1, w3) \<Rightarrow>
                    (case POST_write env2 ctx2 w3 of (r2, w4) \<Rightarrow> ((r1, r2), w4)))))"

text \<open>
  DELETE, lines 215 to 274. The task row is read with the anonymous-key client; an error of
  the external delete is caught and dropped; the event id is cleared in every case.
\<close>

definition DELETE_external :: "env \<Rightarrow> string \<Rightarrow> string \<Rightarrow> world \<Rightarrow> world" where
  "DELETE_external env user eventId w =
     (case getValidTokens env w user of
        (None, w') \<Rightarrow> w'
      | (Some tokens, w') \<Rightarrow>
          snd (deleteCalendarEvent env
                 (createCalendarClient (access_token tokens) (refresh_token tokens)) eventId w'))"

definition DELETE :: "env \<Rightarrow> delete_request \<Rightarrow> world \<Rightarrow> response \<times> world" where
  "DELETE env req w =
     (case del_authorization req of
        None \<Rightarrow> (Unauthorized, w)
      | Some authHeader \<Rightarrow>
          if authHeader = [] then (Unauthorized, w)
          else
            (case getUser env (replace_first ''Bearer '' [] authHeader) of
               None \<Rightarrow> (Unauthorized, w)
             | Some user \<Rightarrow>
                 (case del_taskId req of
                    None \<Rightarrow> (TaskIdRequired, w)
                  | Some tid \<Rightarrow>
                      if tid = [] then (TaskIdRequired, w)
                      else
                        (let w1 =
                           (case (if anon_visible env tid then tasks w tid else None) of
                              None \<Rightarrow> w
                            | Some t \<Rightarrow>
                                (case google_calendar_event_id t of
                                   None \<Rightarrow> w
                                 | Some eventId \<Rightarrow>
                                     if eventId = [] then w
                                     else DELETE_external env user eventId w))
                         in (Success, set_event_id env tid None w1)))))"

section \<open>Concrete hosts, requests and states\<close>

text \<open>
  The clock stands at 2025-03-10T09:46:40Z. User \<^verbatim>\<open>u1\<close> presents the session token
  \<^verbatim>\<open>jwt1\<close>; the task \<^verbatim>\<open>t1\<close> is due on 10 March 2025 at 14:00 for 30 minutes.
\<close>

definition clock0 :: int where
  "clock0 = 1741600000000"

definition fresh_row :: oauth_tokens where
  "fresh_row = \<lparr>user_id = ''u1'', access_token = ''at0'', refresh_token = ''rt0'',
     expires_at = 1741603600000, scope = ''calendar'', token_type = ''Bearer'',
     tokens_updated_at = None\<rparr>"

definition expired_row :: oauth_tokens where
  "expired_row = fresh_row\<lparr>expires_at := 1741590000000\<rparr>"

definition task1 :: task where
  "task1 = \<lparr>task_id = ''t1'', title = ''Demo'', description = None,
     due_date = Some ''2025-03-10'', due_time = Some ''14:00'', duration = Some 30,
     status = ''todo'', priority = 4, google_calendar_event_id = None, updated_at = None\<rparr>"

definition world_of :: "oauth_tokens \<Rightarrow> task \<Rightarrow> world" where
  "world_of row t = \<lparr>google_oauth_tokens = [''u1'' \<mapsto> row], tasks = [''t1'' \<mapsto> t],
     calendar_sync_log = [], requests = []\<rparr>"

definition grant :: "string \<Rightarrow> js_error + credentials" where
  "grant r = Inr \<lparr>cred_access_token = Some ''at1'', cred_expiry_date = Some 1741603600000\<rparr>"

definition revoked :: "string \<Rightarrow> js_error + credentials" where
  "revoked r = Inl (HttpError 400)"

definition api_returns :: "string \<Rightarrow> api_call \<Rightarrow> js_error + string option" where
  "api_returns i c = Inr (Some i)"

definition api_not_found :: "api_call \<Rightarrow> js_error + string option" where
  "api_not_found c = Inl (HttpError 404)"

text \<open>A host whose local time zone is \<open>offset\<close> milliseconds ahead of UTC.\<close>

definition host ::
  "int \<Rightarrow> (string \<Rightarrow> js_error + credentials) \<Rightarrow> (api_call \<Rightarrow> js_error + string option) \<Rightarrow> env" where
  "host offset oauth api =
     \<lparr>now = clock0,
      getUser = (\<lambda>t. if t = ''jwt1'' then Some ''u1'' else None),
      anon_visible = (\<lambda>i. True),
      oauth_refresh = oauth,
      calendar_api = api,
      Date_parse = parse_local_date_time (\<lambda>t. offset)\<rparr>"

definition sync_request :: post_request where
  "sync_request = \<lparr>authorization = Some ''Bearer jwt1'',
     body = Some \<lparr>taskId = Some ''t1'', action = Some ''sync''\<rparr>\<rparr>"

definition delete_action_request :: post_request where
  "delete_action_request = \<lparr>authorization = Some ''Bearer jwt1'',
     body = Some \<lparr>taskId = Some ''t1'', action = Some ''delete''\<rparr>\<rparr>"

definition unsync_request :: delete_request where
  "unsync_request = \<lparr>del_authorization = Some ''Bearer jwt1'', del_taskId = Some ''t1''\<rparr>"

section \<open>Credential manager: what a call may change\<close>

lemma getValidTokens_None:
  "fst (getValidTokens env w u) = None \<Longrightarrow> snd (getValidTokens env w u) = w"
  by (auto simp: getValidTokens_def split: option.splits sum.splits if_splits)

lemma getValidTokens_frame:
  "tasks (snd (getValidTokens env w u)) = tasks w"
  "requests (snd (getValidTokens env w u)) = requests w"
  "calendar_sync_log (snd (getValidTokens env w u)) = calendar_sync_log w"
  by (auto simp: getValidTokens_def split: option.splits sum.splits if_splits)

text \<open>
  Claim C5. When the stored credential of a user is expired and the refresh fails (the token
  endpoint rejects, or its answer carries no access token), \<open>getValidTokens\<close> returns null
  and the whole state, the credential row with its refresh token included, is as before:
  the row is neither deleted nor changed.
\<close>

theorem C5_refresh_failure_keeps_credential:
  assumes "google_oauth_tokens w userId = Some tokens"
    and "expires_at tokens \<le> now env"
    and "refreshAccessToken (oauth_refresh env) (now env) (refresh_token tokens) = Inl e"
  shows "getValidTokens env w userId = (None, w)"
  using assms by (simp add: getValidTokens_def)

theorem C5_witness:
  "getValidTokens (host 0 revoked api_not_found) (world_of expired_row task1) ''u1''
     = (None, world_of expired_row task1)
   \<and> google_oauth_tokens (world_of expired_row task1) ''u1'' = Some expired_row
   \<and> refresh_token expired_row = ''rt0''"
proof -
  have a: "google_oauth_tokens (world_of expired_row task1) ''u1'' = Some expired_row"
    by (simp add: world_of_def)
  have b: "expires_at expired_row \<le> now (host 0 revoked api_not_found)"
    by (simp add: expired_row_def fresh_row_def host_def clock0_def)
  have c: "refreshAccessToken (oauth_refresh (host 0 revoked api_not_found))
             (now (host 0 revoked api_not_found)) (refresh_token expired_row) = Inl (HttpError 400)"
    by (simp add: refreshAccessToken_def host_def revoked_def)
  have d: "refresh_token expired_row = ''rt0''"
    by (simp add: expired_row_def fresh_row_def)
  from C5_refresh_failure_keeps_credential [OF a b c] a d show ?thesis by simp
qed

lemma row_self:
  "\<exists>a x t. (row::oauth_tokens) = row\<lparr>access_token := a, expires_at := x, tokens_updated_at := t\<rparr>"
proof -
  have "row = row\<lparr>access_token := access_token row, expires_at := expires_at row,
                 tokens_updated_at := tokens_updated_at row\<rparr>"
    by simp
  then show ?thesis by blast
qed

lemma getValidTokens_store:
  "snd (getValidTokens env w userId) = w \<or>
   (\<exists>row a x. google_oauth_tokens w userId = Some row \<and>
      snd (getValidTokens env w userId) =
        w\<lparr>google_oauth_tokens := (google_oauth_tokens w)(userId \<mapsto>
             row\<lparr>access_token := a, expires_at := x, tokens_updated_at := Some (now env)\<rparr>)\<rparr>)"
  by (auto simp: getValidTokens_def update_row_def split: option.splits sum.splits if_splits)

text \<open>
  Claim C4. Whatever \<open>getValidTokens\<close> does, every credential row of the store is afterwards
  the row it was with at most the columns \<^verbatim>\<open>access_token\<close>, \<^verbatim>\<open>expires_at\<close> and
  \<^verbatim>\<open>updated_at\<close> rewritten, and no row appears or disappears. The write of a successful
  refresh therefore never touches \<^verbatim>\<open>refresh_token\<close> (nor \<^verbatim>\<open>user_id\<close>, \<^verbatim>\<open>scope\<close>,
  \<^verbatim>\<open>token_type\<close>); the refresh answer carries no refresh token in this code at all.
\<close>

theorem C4_refresh_write_frame:
  "case google_oauth_tokens w u of
     None \<Rightarrow> google_oauth_tokens (snd (getValidTokens env w userId)) u = None
   | Some row \<Rightarrow>
       (\<exists>a x t. google_oauth_tokens (snd (getValidTokens env w userId)) u
          = Some (row\<lparr>access_token := a, expires_at := x, tokens_updated_at := t\<rparr>))"
proof -
  from getValidTokens_store [of env w userId]
  consider (unchanged) "snd (getValidTokens env w userId) = w"
    | (written) row a x where "google_oauth_tokens w userId = Some row"
        "snd (getValidTokens env w userId) =
           w\<lparr>google_oauth_tokens := (google_oauth_tokens w)(userId \<mapsto>
             row\<lparr>access_token := a, expires_at := x, tokens_updated_at := Some (now env)\<rparr>)\<rparr>"
    by blast
  then show ?thesis
  proof cases
    case unchanged
    then show ?thesis using row_self by (simp split: option.splits)
  next
    case written
    show ?thesis
    proof (cases "u = userId")
      case True
      with written show ?thesis by auto
    next
      case False
      with written show ?thesis using row_self by (simp split: option.splits)
    qed
  qed
qed

theorem C4_witness:
  "google_oauth_tokens (world_of expired_row task1) ''u1'' = Some expired_row
   \<and> google_oauth_tokens
        (snd (getValidTokens (host 0 grant api_not_found) (world_of expired_row task1) ''u1'')) ''u1''
      = Some (expired_row\<lparr>access_token := ''at1'', expires_at := 1741603600000,
                tokens_updated_at := Some clock0\<rparr>)
   \<and> refresh_token (expired_row\<lparr>access_token := ''at1'', expires_at := 1741603600000,
                tokens_updated_at := Some clock0\<rparr>) = ''rt0''"
proof -
  have a: "google_oauth_tokens (world_of expired_row task1) ''u1'' = Some expired_row"
    by (simp add: world_of_def)
  have b: "google_oauth_tokens
        (snd (getValidTokens (host 0 grant api_not_found) (world_of expired_row task1) ''u1'')) ''u1''
      = Some (expired_row\<lparr>access_token := ''at1'', expires_at := 1741603600000,
                tokens_updated_at := Some clock0\<rparr>)"
    by code_simp
  have c: "refresh_token (expired_row\<lparr>access_token := ''at1'', expires_at := 1741603600000,
                tokens_updated_at := Some clock0\<rparr>) = ''rt0''"
    by (simp add: expired_row_def fresh_row_def)
  from C4_refresh_write_frame [where w = "world_of expired_row task1" and u = "''u1''"
         and env = "host 0 grant api_not_found" and userId = "''u1''"] a b c
  show ?thesis by simp
qed

text \<open>
  Claim C3, as the code has it. A non-null result of \<open>getValidTokens\<close> is the stored row of
  the user. On the fast path (the stored \<^verbatim>\<open>expires_at\<close> strictly greater than the clock)
  it is that row unchanged and nothing is written. On the refresh path it is the stored
  row with \<^verbatim>\<open>access_token\<close> alone replaced by the refreshed one, so the \<^verbatim>\<open>expires_at\<close> of
  the returned record is still the stored, expired value: the new expiry goes to the store
  only, and is not compared with the clock.
\<close>

theorem C3_result_shape:
  assumes "getValidTokens env w userId = (Some r, w')"
  shows "\<exists>row. google_oauth_tokens w userId = Some row \<and>
           (if now env < expires_at row then r = row \<and> w' = w
            else (\<exists>n. refreshAccessToken (oauth_refresh env) (now env) (refresh_token row) = Inr n
                      \<and> r = row\<lparr>access_token := new_access_token n\<rparr>
                      \<and> expires_at r = expires_at row))"
  using assms
  by (auto simp: getValidTokens_def split: option.splits sum.splits if_splits)

theorem C3_witness:
  "getValidTokens (host 0 revoked api_not_found) (world_of fresh_row task1) ''u1''
     = (Some fresh_row, world_of fresh_row task1)
   \<and> google_oauth_tokens (world_of fresh_row task1) ''u1'' = Some fresh_row
   \<and> now (host 0 revoked api_not_found) < expires_at fresh_row"
proof -
  have a: "getValidTokens (host 0 revoked api_not_found) (world_of fresh_row task1) ''u1''
             = (Some fresh_row, world_of fresh_row task1)"
    by (simp add: getValidTokens_def world_of_def fresh_row_def host_def clock0_def)
  have b: "google_oauth_tokens (world_of fresh_row task1) ''u1'' = Some fresh_row"
    by (simp add: world_of_def)
  have c: "now (host 0 revoked api_not_found) < expires_at fresh_row"
    by (simp add: fresh_row_def host_def clock0_def)
  from C3_result_shape [OF a] a b c show ?thesis by simp
qed

text \<open>
  The claim as stated fails on the refresh path: the stored credential is expired, the
  refresh succeeds, and the record returned carries the expired \<^verbatim>\<open>expires_at\<close>.
\<close>

theorem C3_counterexample:
  "fst (getValidTokens (host 0 grant api_not_found) (world_of expired_row task1) ''u1'')
     = Some (expired_row\<lparr>access_token := ''at1''\<rparr>)
   \<and> \<not> now (host 0 grant api_not_found) < expires_at (expired_row\<lparr>access_token := ''at1''\<rparr>)"
  by code_simp

section \<open>Sync orchestrator: effects of the calls and of the branches\<close>

lemma createCalendarEvent_cases:
  assumes "createCalendarEvent env cal te w = (r, w')"
  shows "(\<exists>e. createEvent env te = Inl e \<and> r = Inl e \<and> w' = w) \<or>
         (\<exists>ev. createEvent env te = Inr ev \<and>
            w' = w\<lparr>requests := requests w @ [events_insert cal ev]\<rparr> \<and>
            (case r of Inl e \<Rightarrow> True
             | Inr i \<Rightarrow> i \<noteq> [] \<and> calendar_api env (events_insert cal ev) = Inr (Some i)))"
  using assms
  by (auto simp: createCalendarEvent_def send_def split: sum.splits option.splits if_splits)

lemma updateCalendarEvent_cases:
  assumes "updateCalendarEvent env cal eid te w = (r, w')"
  shows "(\<exists>e. updateEvent env te = Inl e \<and> r = Inl e \<and> w' = w) \<or>
         (\<exists>ev. updateEvent env te = Inr ev \<and>
            w' = w\<lparr>requests := requests w @ [events_patch cal eid ev]\<rparr> \<and>
            r = map_sum id (\<lambda>x. ()) (calendar_api env (events_patch cal eid ev)))"
  using assms
  by (auto simp: updateCalendarEvent_def send_def split: sum.splits option.splits if_splits)

lemma deleteCalendarEvent_eq:
  "deleteCalendarEvent env cal eid w =
     (map_sum id (\<lambda>x. ()) (calendar_api env (events_delete cal eid)),
      w\<lparr>requests := requests w @ [events_delete cal eid]\<rparr>)"
  by (auto simp: deleteCalendarEvent_def send_def split: sum.splits)

lemma POST_create_Created:
  assumes "POST_create env ctx w = (Created e, w')"
  shows "e \<noteq> [] \<and> (\<exists>ev. createEvent env (taskEvent (ctx_task ctx)) = Inr ev \<and>
           calendar_api env (events_insert (ctx_calendar ctx) ev) = Inr (Some e) \<and>
           w' = log_success ctx e ''create'' (set_event_id env (ctx_taskId ctx) (Some e)
                  (w\<lparr>requests := requests w @ [events_insert (ctx_calendar ctx) ev]\<rparr>)))"
proof -
  obtain r w1 where c: "createCalendarEvent env (ctx_calendar ctx) (taskEvent (ctx_task ctx)) w = (r, w1)"
    by (cases "createCalendarEvent env (ctx_calendar ctx) (taskEvent (ctx_task ctx)) w")
  with assms have r: "r = Inr e"
    and w': "w' = log_success ctx e ''create'' (set_event_id env (ctx_taskId ctx) (Some e) w1)"
    by (auto simp: POST_create_def split: sum.splits)
  from createCalendarEvent_cases [OF c] r w' show ?thesis by auto
qed

lemma POST_update_effect:
  assumes "POST_update env ctx eid w = (r, w')"
  shows "tasks w' = tasks w \<and> google_oauth_tokens w' = google_oauth_tokens w \<and>
         (\<forall>e. r \<noteq> Created e) \<and>
         (requests w' = requests w \<or>
          (\<exists>ev. requests w' = requests w @ [events_patch (ctx_calendar ctx) eid ev]))"
proof -
  obtain x w1 where c: "updateCalendarEvent env (ctx_calendar ctx) eid (taskEvent (ctx_task ctx)) w = (x, w1)"
    by (cases "updateCalendarEvent env (ctx_calendar ctx) eid (taskEvent (ctx_task ctx)) w")
  from updateCalendarEvent_cases [OF c] c assms show ?thesis
    by (auto simp: POST_update_def log_success_def split: sum.splits)
qed

lemma POST_delete_effect:
  assumes "POST_delete env ctx eid w = (r, w')"
  shows "(\<forall>e. r \<noteq> Created e) \<and>
         requests w' = requests w @ [events_delete (ctx_calendar ctx) eid]"
  using assms
  by (auto simp: POST_delete_def deleteCalendarEvent_eq log_success_def set_event_id_def
           split: sum.splits)

lemma POST_read_frame:
  assumes "POST_read env req w = (x, w')"
  shows "tasks w' = tasks w \<and> requests w' = requests w \<and>
         calendar_sync_log w' = calendar_sync_log w"
proof -
  have "w' = w \<or> (\<exists>u. w' = snd (getValidTokens env w u))"
    using assms
    by (auto simp: POST_read_def split: option.splits if_splits prod.splits)
       (metis snd_conv)+
  then show ?thesis using getValidTokens_frame by auto
qed

lemma POST_read_ctx:
  assumes "POST_read env req w = (Inr ctx, w')"
  shows "\<exists>b. body req = Some b \<and> taskId b = Some (ctx_taskId ctx) \<and> ctx_taskId ctx \<noteq> [] \<and>
           ctx_action ctx = action b \<and> tasks w (ctx_taskId ctx) = Some (ctx_task ctx)"
proof -
  from assms have "\<exists>b. body req = Some b \<and> taskId b = Some (ctx_taskId ctx) \<and> ctx_taskId ctx \<noteq> [] \<and>
           ctx_action ctx = action b \<and> tasks w' (ctx_taskId ctx) = Some (ctx_task ctx)"
    by (auto simp: POST_read_def split: option.splits if_splits prod.splits)
  with POST_read_frame [OF assms] show ?thesis by simp
qed


lemma POST_read_Inl:
  assumes "POST_read env req w = (Inl r, w')"
  shows "(\<forall>e. r \<noteq> Created e) \<and> (\<forall>e. r \<noteq> Updated e)"
  using assms
  by (auto simp: POST_read_def split: option.splits if_splits prod.splits)

lemma POST_write_Created:
  assumes "POST_write env ctx w = (Created e, w')"
  shows "POST_create env ctx w = (Created e, w')"
  using assms POST_update_effect POST_delete_effect
  by (fastforce simp: POST_write_def split: option.splits if_splits)

lemma POST_write_synced:
  assumes "google_calendar_event_id (ctx_task ctx) = Some eid" and "eid \<noteq> []"
    and "ctx_action ctx \<noteq> Some ''delete''"
  shows "POST_write env ctx w = POST_update env ctx eid w"
  using assms by (simp add: POST_write_def)

text \<open>
  Claim C6. A sync request that reaches the token check (authenticated, with a task id)
  while \<open>getValidTokens\<close> yields null is answered at once with the 401 response that
  carries \<^verbatim>\<open>needsAuth: true\<close>, the only response with that flag; the state returned is
  the state received, so no request went to the calendar service and no task row, its
  \<^verbatim>\<open>google_calendar_event_id\<close> in particular, was written.
\<close>

theorem C6_not_connected_fails_fast:
  assumes "authorization req = Some h" and "h \<noteq> []"
    and "getUser env (replace_first ''Bearer '' [] h) = Some user"
    and "body req = Some b" and "taskId b = Some tid" and "tid \<noteq> []"
    and "fst (getValidTokens env w user) = None"
  shows "POST env req w = (NotConnected, w) \<and> status_code NotConnected = 401
         \<and> (\<forall>r. needsAuth r = (r = NotConnected))"
proof -
  from assms(7) getValidTokens_None [OF assms(7)]
  have "getValidTokens env w user = (None, w)"
    by (metis prod.collapse)
  with assms have "POST env req w = (NotConnected, w)"
    by (simp add: POST_def POST_read_def)
  moreover have "needsAuth r = (r = NotConnected)" for r
    by (cases r) simp_all
  ultimately show ?thesis by simp
qed


theorem C6_witness:
  "POST (host 0 revoked (api_returns ''ev1'')) sync_request
        ((world_of fresh_row task1)\<lparr>google_oauth_tokens := Map.empty\<rparr>)
     = (NotConnected, (world_of fresh_row task1)\<lparr>google_oauth_tokens := Map.empty\<rparr>)
   \<and> status_code NotConnected = 401 \<and> needsAuth NotConnected \<and> \<not> needsAuth Unauthorized"
proof -
  let ?E = "host 0 revoked (api_returns ''ev1'')"
  let ?W = "(world_of fresh_row task1)\<lparr>google_oauth_tokens := Map.empty\<rparr>"
  have a: "authorization sync_request = Some ''Bearer jwt1''" and a': "''Bearer jwt1'' \<noteq> []"
    by (simp_all add: sync_request_def)
  have b: "getUser ?E (replace_first ''Bearer '' [] ''Bearer jwt1'') = Some ''u1''"
    by (simp add: host_def)
  have c: "body sync_request = Some \<lparr>taskId = Some ''t1'', action = Some ''sync''\<rparr>"
    by (simp add: sync_request_def)
  have d: "taskId \<lparr>taskId = Some ''t1'', action = Some ''sync''\<rparr> = Some ''t1''" and d': "''t1'' \<noteq> []"
    by simp_all
  have e: "fst (getValidTokens ?E ?W ''u1'') = None"
    by (simp add: getValidTokens_def)
  from C6_not_connected_fails_fast [OF a a' b c d d' e] show ?thesis by simp
qed

lemma DELETE_external_frame:
  "tasks (DELETE_external env user eid w) = tasks w"
  using getValidTokens_frame(1) [of env w user]
  by (auto simp: DELETE_external_def deleteCalendarEvent_eq split: prod.splits option.splits)

lemma set_event_id_row:
  "tasks (set_event_id env tid v w) tid =
     map_option (\<lambda>row. row\<lparr>google_calendar_event_id := v, updated_at := Some (now env)\<rparr>) (tasks w tid)"
  by (simp add: set_event_id_def update_row_def split: option.splits)

lemma DELETE_authenticated:
  assumes "del_authorization req = Some h" and "h \<noteq> []"
    and "getUser env (replace_first ''Bearer '' [] h) = Some user"
    and "del_taskId req = Some tid" and "tid \<noteq> []"
  shows "\<exists>w1. DELETE env req w = (Success, set_event_id env tid None w1) \<and> tasks w1 = tasks w \<and>
           ((\<forall>t. tasks w tid = Some t \<longrightarrow> \<not> truthy (google_calendar_event_id t)) \<longrightarrow> w1 = w)"
  using assms DELETE_external_frame
  by (auto simp: DELETE_def Let_def truthy_def split: option.splits if_splits)

lemma set_event_id_requests:
  "requests (set_event_id env tid v w) = requests w"
  by (simp add: set_event_id_def)

text \<open>
  The DELETE route answers every authenticated request that names a task with success,
  whatever the calendar service answers to the delete (a not-found error of an event
  deleted elsewhere is caught and dropped); afterwards the row of the task has no event
  id. A second DELETE right after the first succeeds as well and sends nothing to the
  calendar service.
\<close>

lemma DELETE_tolerates_missing_event:
  assumes "del_authorization req = Some h" and "h \<noteq> []"
    and "getUser env (replace_first ''Bearer '' [] h) = Some user"
    and "getUser env2 (replace_first ''Bearer '' [] h) = Some user2"
    and "del_taskId req = Some tid" and "tid \<noteq> []"
  shows "fst (DELETE env req w) = Success
       \<and> tasks (snd (DELETE env req w)) tid =
           map_option (\<lambda>row. row\<lparr>google_calendar_event_id := None, updated_at := Some (now env)\<rparr>)
             (tasks w tid)
       \<and> fst (DELETE env2 req (snd (DELETE env req w))) = Success
       \<and> requests (snd (DELETE env2 req (snd (DELETE env req w)))) = requests (snd (DELETE env req w))"
proof -
  from DELETE_authenticated [OF assms(1,2,3,5,6), of w]
  obtain w1 where 1: "DELETE env req w = (Success, set_event_id env tid None w1)"
    and t1: "tasks w1 = tasks w"
    by blast
  let ?w' = "set_event_id env tid None w1"
  have row: "tasks ?w' tid =
      map_option (\<lambda>row. row\<lparr>google_calendar_event_id := None, updated_at := Some (now env)\<rparr>) (tasks w tid)"
    by (simp add: set_event_id_row t1)
  then have unsynced: "\<forall>t. tasks ?w' tid = Some t \<longrightarrow> \<not> truthy (google_calendar_event_id t)"
    by (auto simp: truthy_def)
  from DELETE_authenticated [OF assms(1,2,4,5,6), of ?w'] unsynced
  have 2: "DELETE env2 req ?w' = (Success, set_event_id env2 tid None ?w')"
    by auto
  from 1 2 row show ?thesis by (simp add: set_event_id_requests)
qed

lemma DELETE_tolerates_missing_event_example:
  "fst (DELETE (host 0 grant api_not_found) unsync_request
          (world_of fresh_row (task1\<lparr>google_calendar_event_id := Some ''ev0''\<rparr>))) = Success
   \<and> calendar_api (host 0 grant api_not_found)
        (events_delete (createCalendarClient ''at0'' ''rt0'') ''ev0'') = Inl (HttpError 404)
   \<and> requests (snd (DELETE (host 0 grant api_not_found) unsync_request
          (world_of fresh_row (task1\<lparr>google_calendar_event_id := Some ''ev0''\<rparr>))))
       = [events_delete (createCalendarClient ''at0'' ''rt0'') ''ev0'']
   \<and> tasks (snd (DELETE (host 0 grant api_not_found) unsync_request
          (world_of fresh_row (task1\<lparr>google_calendar_event_id := Some ''ev0''\<rparr>)))) ''t1''
       = Some (task1\<lparr>updated_at := Some clock0\<rparr>)
   \<and> fst (DELETE (host 0 grant api_not_found) unsync_request
        (snd (DELETE (host 0 grant api_not_found) unsync_request
          (world_of fresh_row (task1\<lparr>google_calendar_event_id := Some ''ev0''\<rparr>))))) = Success"
proof -
  let ?E = "host 0 grant api_not_found"
  let ?W = "world_of fresh_row (task1\<lparr>google_calendar_event_id := Some ''ev0''\<rparr>)"
  have a: "del_authorization unsync_request = Some ''Bearer jwt1''" and a': "''Bearer jwt1'' \<noteq> []"
    by (simp_all add: unsync_request_def)
  have b: "getUser ?E (replace_first ''Bearer '' [] ''Bearer jwt1'') = Some ''u1''"
    by (simp add: host_def)
  have c: "del_taskId unsync_request = Some ''t1''" and c': "''t1'' \<noteq> []"
    by (simp_all add: unsync_request_def)
  have d: "calendar_api ?E (events_delete (createCalendarClient ''at0'' ''rt0'') ''ev0'') = Inl (HttpError 404)"
    by (simp add: host_def api_not_found_def)
  have e: "requests (snd (DELETE ?E unsync_request ?W))
             = [events_delete (createCalendarClient ''at0'' ''rt0'') ''ev0'']"
    by code_simp
  have f: "tasks ?W ''t1'' = Some (task1\<lparr>google_calendar_event_id := Some ''ev0''\<rparr>)"
    by (simp add: world_of_def)
  have g: "now ?E = clock0"
    by (simp add: host_def)
  have h: "task1\<lparr>google_calendar_event_id := None\<rparr> = task1"
    by (simp add: task1_def)
  from DELETE_tolerates_missing_event [OF a a' b b c c', of ?W] d e f g h
  show ?thesis by simp
qed

text \<open>
  Claim C7 fails on the other way to unsync, the branch \<^verbatim>\<open>action === 'delete'\<close> of POST
  (lines 126 to 149), which awaits the external delete with no try/catch. For the task
  \<^verbatim>\<open>t1\<close> holding the event id \<^verbatim>\<open>ev0\<close> and a calendar service that answers 404 to the
  delete, the request is answered with the 500 failure and the row keeps \<^verbatim>\<open>ev0\<close>. And
  when the service does delete the event, the first request answers \<^verbatim>\<open>deleted\<close> and the
  same request sent again finds no id, falls through to the create branch and answers
  \<^verbatim>\<open>created\<close>, after which the row holds a new event id.
\<close>

theorem C7_post_delete_not_tolerant:
  "fst (POST (host 0 grant api_not_found) delete_action_request
          (world_of fresh_row (task1\<lparr>google_calendar_event_id := Some ''ev0''\<rparr>)))
     = SyncFailed (HttpError 404)
   \<and> status_code (fst (POST (host 0 grant api_not_found) delete_action_request
          (world_of fresh_row (task1\<lparr>google_calendar_event_id := Some ''ev0''\<rparr>)))) = 500
   \<and> map_option google_calendar_event_id
        (tasks (snd (POST (host 0 grant api_not_found) delete_action_request
          (world_of fresh_row (task1\<lparr>google_calendar_event_id := Some ''ev0''\<rparr>)))) ''t1'')
     = Some (Some ''ev0'')
   \<and> fst (POST (host 0 grant (api_returns ''ev1'')) delete_action_request
          (world_of fresh_row (task1\<lparr>google_calendar_event_id := Some ''ev0''\<rparr>)))
     = Deleted
   \<and> fst (POST (host 0 grant (api_returns ''ev1'')) delete_action_request
        (snd (POST (host 0 grant (api_returns ''ev1'')) delete_action_request
          (world_of fresh_row (task1\<lparr>google_calendar_event_id := Some ''ev0''\<rparr>)))))
     = Created ''ev1''
   \<and> map_option google_calendar_event_id
        (tasks (snd (POST (host 0 grant (api_returns ''ev1'')) delete_action_request
          (snd (POST (host 0 grant (api_returns ''ev1'')) delete_action_request
            (world_of fresh_row (task1\<lparr>google_calendar_event_id := Some ''ev0''\<rparr>)))))) ''t1'')
     = Some (Some ''ev1'')"
  by code_simp

lemma log_success_frame:
  "tasks (log_success ctx e a w) = tasks w"
  "requests (log_success ctx e a w) = requests w"
  by (simp_all add: log_success_def)

lemma POST_created:
  assumes "POST env req w = (Created e, w1)"
  shows "\<exists>ctx ev b t. body req = Some b \<and> taskId b = Some (ctx_taskId ctx) \<and>
           tasks w (ctx_taskId ctx) = Some t \<and> e \<noteq> [] \<and>
           requests w1 = requests w @ [events_insert (ctx_calendar ctx) ev] \<and>
           tasks w1 = (tasks w)(ctx_taskId ctx \<mapsto>
              t\<lparr>google_calendar_event_id := Some e, updated_at := Some (now env)\<rparr>)"
proof -
  obtain x wa where rd: "POST_read env req w = (x, wa)"
    by (cases "POST_read env req w")
  show ?thesis
  proof (cases x)
    case (Inl r)
    with rd assms POST_read_Inl [of env req w r wa] show ?thesis
      by (simp add: POST_def)
  next
    case (Inr ctx)
    with rd assms have wr: "POST_write env ctx wa = (Created e, w1)"
      by (simp add: POST_def)
    from rd Inr POST_read_ctx [of env req w ctx wa]
    obtain b where b: "body req = Some b" "taskId b = Some (ctx_taskId ctx)"
      "tasks w (ctx_taskId ctx) = Some (ctx_task ctx)"
      by blast
    from POST_read_frame [OF rd] have fr: "tasks wa = tasks w" "requests wa = requests w"
      by simp_all
    from POST_create_Created [OF POST_write_Created [OF wr]]
    obtain ev where e: "e \<noteq> []"
      and w1: "w1 = log_success ctx e ''create'' (set_event_id env (ctx_taskId ctx) (Some e)
                  (wa\<lparr>requests := requests wa @ [events_insert (ctx_calendar ctx) ev]\<rparr>))"
      by blast
    from w1 have "requests w1 = requests w @ [events_insert (ctx_calendar ctx) ev]"
      by (simp add: log_success_frame set_event_id_requests fr)
    moreover from w1 have "tasks w1 = (tasks w)(ctx_taskId ctx \<mapsto>
              (ctx_task ctx)\<lparr>google_calendar_event_id := Some e, updated_at := Some (now env)\<rparr>)"
      by (simp add: log_success_frame set_event_id_def update_row_def fr b)
    ultimately show ?thesis using b e by blast
  qed
qed

lemma POST_synced:
  assumes "body req = Some b" and "taskId b = Some tid" and "action b \<noteq> Some ''delete''"
    and "tasks w tid = Some t" and "google_calendar_event_id t = Some e" and "e \<noteq> []"
    and "POST env req w = (r, w')"
  shows "tasks w' = tasks w \<and> (\<forall>i. r \<noteq> Created i) \<and>
         (requests w' = requests w \<or> (\<exists>c ev. requests w' = requests w @ [events_patch c e ev])) \<and>
         (\<forall>ctx wa. POST_read env req w = (Inr ctx, wa) \<longrightarrow> POST_write env ctx wa = POST_update env ctx e wa)"
proof -
  obtain x wa where rd: "POST_read env req w = (x, wa)"
    by (cases "POST_read env req w")
  from POST_read_frame [OF rd] have fr: "tasks wa = tasks w" "requests wa = requests w"
    by simp_all
  show ?thesis
  proof (cases x)
    case (Inl r')
    with rd assms(7) have "r = r'" "w' = wa"
      by (simp_all add: POST_def)
    with rd Inl POST_read_Inl [of env req w r' wa] fr show ?thesis
      by simp
  next
    case (Inr ctx)
    with rd POST_read_ctx [of env req w ctx wa] assms(1-4)
    have c: "ctx_taskId ctx = tid" "ctx_action ctx = action b" "ctx_task ctx = t"
      by auto
    with assms have sel: "POST_write env ctx wa = POST_update env ctx e wa"
      by (simp add: POST_write_synced)
    with rd Inr assms(7) have "POST_update env ctx e wa = (r, w')"
      by (simp add: POST_def)
    from POST_update_effect [OF this] fr rd Inr sel show ?thesis
      by auto
  qed
qed

text \<open>
  Claim C1. Let a first sync (a POST whose action is not \<^verbatim>\<open>delete\<close>) answer
  \<^verbatim>\<open>created\<close> with event id \<open>e\<close>, which it does only on a row without event id, and let
  the same request be served again on the resulting state, under any answers of the
  environment. Then the first call sent exactly one insert; the second call sends no
  insert and never answers \<^verbatim>\<open>created\<close>: once past authentication, tokens and the task
  read it runs the update branch, so it sends at most one patch of \<open>e\<close>; and the row holds
  the non-empty id \<open>e\<close> after the first call and is the same row after the second.
\<close>

theorem C1_sync_twice_creates_once:
  assumes first: "POST env1 req w0 = (Created e, w1)"
    and sync: "body req = Some b" "action b \<noteq> Some ''delete''"
    and second: "POST env2 req w1 = (r2, w2)"
  shows "\<exists>tid t1 c ev.
           taskId b = Some tid \<and>
           requests w1 = requests w0 @ [events_insert c ev] \<and>
           filter is_insert (requests w2) = filter is_insert (requests w0) @ [events_insert c ev] \<and>
           (\<forall>i. r2 \<noteq> Created i) \<and>
           (requests w2 = requests w1 \<or> (\<exists>c' ev'. requests w2 = requests w1 @ [events_patch c' e ev'])) \<and>
           (\<forall>ctx wa. POST_read env2 req w1 = (Inr ctx, wa)
               \<longrightarrow> POST_write env2 ctx wa = POST_update env2 ctx e wa) \<and>
           tasks w1 tid = Some t1 \<and> google_calendar_event_id t1 = Some e \<and> e \<noteq> [] \<and>
           tasks w2 tid = Some t1"
proof -
  from POST_created [OF first] sync(1)
  obtain ctx ev t where tid: "taskId b = Some (ctx_taskId ctx)"
    and e: "e \<noteq> []"
    and rq: "requests w1 = requests w0 @ [events_insert (ctx_calendar ctx) ev]"
    and tk: "tasks w1 = (tasks w0)(ctx_taskId ctx \<mapsto>
              t\<lparr>google_calendar_event_id := Some e, updated_at := Some (now env1)\<rparr>)"
    by auto
  let ?t1 = "t\<lparr>google_calendar_event_id := Some e, updated_at := Some (now env1)\<rparr>"
  have row: "tasks w1 (ctx_taskId ctx) = Some ?t1" "google_calendar_event_id ?t1 = Some e"
    using tk by simp_all
  from POST_synced [OF sync(1) tid sync(2) row e second]
  have s: "tasks w2 = tasks w1" "\<forall>i. r2 \<noteq> Created i"
    "requests w2 = requests w1 \<or> (\<exists>c ev. requests w2 = requests w1 @ [events_patch c e ev])"
    "\<forall>ctx wa. POST_read env2 req w1 = (Inr ctx, wa) \<longrightarrow> POST_write env2 ctx wa = POST_update env2 ctx e wa"
    by blast+
  from s(3) rq
  have f: "filter is_insert (requests w2) = filter is_insert (requests w0) @ [events_insert (ctx_calendar ctx) ev]"
    by auto
  from tid rq f s row e show ?thesis
    by (intro exI [of _ "ctx_taskId ctx"] exI [of _ ?t1] exI [of _ "ctx_calendar ctx"] exI [of _ ev])
       simp
qed

theorem C1_witness:
  "fst (POST (host 0 grant (api_returns ''ev1'')) sync_request (world_of fresh_row task1)) = Created ''ev1''
   \<and> fst (POST (host 0 grant (api_returns ''ev2'')) sync_request
        (snd (POST (host 0 grant (api_returns ''ev1'')) sync_request (world_of fresh_row task1))))
       = Updated ''ev1''
   \<and> length (filter is_insert (requests (snd (POST (host 0 grant (api_returns ''ev2'')) sync_request
        (snd (POST (host 0 grant (api_returns ''ev1'')) sync_request (world_of fresh_row task1))))))) = 1
   \<and> map_option google_calendar_event_id (tasks (snd (POST (host 0 grant (api_returns ''ev2'')) sync_request
        (snd (POST (host 0 grant (api_returns ''ev1'')) sync_request (world_of fresh_row task1))))) ''t1'')
       = Some (Some ''ev1'')"
proof -
  let ?E1 = "host 0 grant (api_returns ''ev1'')"
  let ?E2 = "host 0 grant (api_returns ''ev2'')"
  let ?W0 = "world_of fresh_row task1"
  let ?W1 = "snd (POST ?E1 sync_request ?W0)"
  let ?W2 = "snd (POST ?E2 sync_request ?W1)"
  have r1: "fst (POST ?E1 sync_request ?W0) = Created ''ev1''"
    by code_simp
  then have a: "POST ?E1 sync_request ?W0 = (Created ''ev1'', ?W1)"
    by (metis prod.collapse)
  have b: "body sync_request = Some \<lparr>taskId = Some ''t1'', action = Some ''sync''\<rparr>"
    by (simp add: sync_request_def)
  have c: "action \<lparr>taskId = Some ''t1'', action = Some ''sync''\<rparr> \<noteq> Some ''delete''"
    by simp
  have d: "POST ?E2 sync_request ?W1 = (fst (POST ?E2 sync_request ?W1), ?W2)"
    by simp
  have r2: "fst (POST ?E2 sync_request ?W1) = Updated ''ev1''"
    by code_simp
  have w0: "requests ?W0 = []"
    by (simp add: world_of_def)
  from C1_sync_twice_creates_once [OF a b c d] w0
  obtain t1 where "length (filter is_insert (requests ?W2)) = 1"
    and "tasks ?W2 ''t1'' = Some t1" and "google_calendar_event_id t1 = Some ''ev1''"
    by auto
  with r1 r2 show ?thesis by simp
qed

text \<open>
  Claim C2, as the code has it. Let a sync request pass authentication, the token check and
  the task read, on a row that holds a non-empty event id, and let the calendar service
  reject the patch (not-found or any other error). Then the request is answered with the
  500 failure response carrying that error; one patch was sent; no task row and no log row
  is written, so the row keeps its event id. The next sync of the same request, whatever
  the environment then answers, sends no insert and never answers \<^verbatim>\<open>created\<close>: the event
  is not recreated.
\<close>

theorem C2_patch_not_found_is_failure:
  assumes rd: "POST_read env req w = (Inr ctx, w')"
    and synced: "google_calendar_event_id (ctx_task ctx) = Some eid" "eid \<noteq> []"
    and act: "ctx_action ctx \<noteq> Some ''delete''"
    and ev: "updateEvent env (taskEvent (ctx_task ctx)) = Inr ev"
    and gone: "calendar_api env (events_patch (ctx_calendar ctx) eid ev) = Inl err"
    and nxt: "POST env2 req (snd (POST env req w)) = (r2, w2)"
  shows "POST env req w =
           (SyncFailed err, w'\<lparr>requests := requests w' @ [events_patch (ctx_calendar ctx) eid ev]\<rparr>)
       \<and> status_code (fst (POST env req w)) = 500
       \<and> tasks (snd (POST env req w)) = tasks w
       \<and> calendar_sync_log (snd (POST env req w)) = calendar_sync_log w
       \<and> tasks w (ctx_taskId ctx) = Some (ctx_task ctx)
       \<and> (\<forall>i. r2 \<noteq> Created i)
       \<and> filter is_insert (requests w2) = filter is_insert (requests w)
       \<and> tasks w2 = tasks w"
proof -
  let ?w1 = "w'\<lparr>requests := requests w' @ [events_patch (ctx_calendar ctx) eid ev]\<rparr>"
  from POST_read_frame [OF rd]
  have fr: "tasks w' = tasks w" "requests w' = requests w" "calendar_sync_log w' = calendar_sync_log w"
    by simp_all
  from POST_read_ctx [OF rd]
  obtain b where b: "body req = Some b" "taskId b = Some (ctx_taskId ctx)"
    "ctx_action ctx = action b" "tasks w (ctx_taskId ctx) = Some (ctx_task ctx)"
    by blast
  have "POST_update env ctx eid w' = (SyncFailed err, ?w1)"
    using ev gone by (simp add: POST_update_def updateCalendarEvent_def send_def)
  with rd synced act have 1: "POST env req w = (SyncFailed err, ?w1)"
    by (simp add: POST_def POST_write_synced)
  have row: "tasks ?w1 (ctx_taskId ctx) = Some (ctx_task ctx)"
    using b(4) fr by simp
  from act b(3) have nd: "action b \<noteq> Some ''delete''"
    by simp
  from nxt 1 have "POST env2 req ?w1 = (r2, w2)"
    by simp
  from POST_synced [OF b(1) b(2) nd row synced this]
  have 2: "tasks w2 = tasks ?w1" "\<forall>i. r2 \<noteq> Created i"
    "requests w2 = requests ?w1 \<or> (\<exists>c ev'. requests w2 = requests ?w1 @ [events_patch c eid ev'])"
    by blast+
  from 2(3) fr have 3: "filter is_insert (requests w2) = filter is_insert (requests w)"
    by auto
  from 1 2 3 fr b(4) show ?thesis by simp
qed

text \<open>
  The claim as stated fails: with a row that holds the id \<^verbatim>\<open>ev0\<close> and a calendar service
  that answers 404 to the patch, the sync is answered with the 500 failure, and the next
  sync (the service now answering) patches \<^verbatim>\<open>ev0\<close> again instead of creating an event.
\<close>

theorem C2_counterexample:
  "fst (POST (host 0 grant api_not_found) sync_request
          (world_of fresh_row (task1\<lparr>google_calendar_event_id := Some ''ev0''\<rparr>)))
     = SyncFailed (HttpError 404)
   \<and> status_code (fst (POST (host 0 grant api_not_found) sync_request
          (world_of fresh_row (task1\<lparr>google_calendar_event_id := Some ''ev0''\<rparr>)))) = 500
   \<and> fst (POST (host 0 grant (api_returns ''ev9'')) sync_request
        (snd (POST (host 0 grant api_not_found) sync_request
          (world_of fresh_row (task1\<lparr>google_calendar_event_id := Some ''ev0''\<rparr>)))))
     = Updated ''ev0''"
  by code_simp

theorem C2_witness:
  "fst (POST (host 0 grant api_not_found) sync_request
          (world_of fresh_row (task1\<lparr>google_calendar_event_id := Some ''ev0''\<rparr>)))
     = SyncFailed (HttpError 404)
   \<and> tasks (snd (POST (host 0 grant api_not_found) sync_request
          (world_of fresh_row (task1\<lparr>google_calendar_event_id := Some ''ev0''\<rparr>)))) ''t1''
     = Some (task1\<lparr>google_calendar_event_id := Some ''ev0''\<rparr>)
   \<and> filter is_insert (requests (snd (POST (host 0 grant (api_returns ''ev9'')) sync_request
        (snd (POST (host 0 grant api_not_found) sync_request
          (world_of fresh_row (task1\<lparr>google_calendar_event_id := Some ''ev0''\<rparr>))))))) = []"
proof -
  let ?E = "host 0 grant api_not_found"
  let ?E2 = "host 0 grant (api_returns ''ev9'')"
  let ?T = "task1\<lparr>google_calendar_event_id := Some ''ev0''\<rparr>"
  let ?W = "world_of fresh_row ?T"
  let ?C = "\<lparr>ctx_user = ''u1'', ctx_taskId = ''t1'', ctx_action = Some ''sync'',
             ctx_tokens = fresh_row, ctx_task = ?T\<rparr>"
  have rd: "POST_read ?E sync_request ?W = (Inr ?C, ?W)"
    by (simp add: POST_read_def getValidTokens_def world_of_def host_def sync_request_def
          fresh_row_def clock0_def)
  have synced: "google_calendar_event_id (ctx_task ?C) = Some ''ev0''" "''ev0'' \<noteq> []"
    by simp_all
  have act: "ctx_action ?C \<noteq> Some ''delete''"
    by simp
  have "\<not> isl (updateEvent ?E (taskEvent (ctx_task ?C)))"
    by code_simp
  then obtain ev where ev: "updateEvent ?E (taskEvent (ctx_task ?C)) = Inr ev"
    by (cases "updateEvent ?E (taskEvent (ctx_task ?C))") auto
  have gone: "calendar_api ?E (events_patch (ctx_calendar ?C) ''ev0'' ev) = Inl (HttpError 404)"
    by (simp add: host_def api_not_found_def)
  have nxt: "POST ?E2 sync_request (snd (POST ?E sync_request ?W))
               = (fst (POST ?E2 sync_request (snd (POST ?E sync_request ?W))),
                  snd (POST ?E2 sync_request (snd (POST ?E sync_request ?W))))"
    by simp
  have w: "requests ?W = []" "tasks ?W ''t1'' = Some ?T"
    by (simp_all add: world_of_def)
  note th = C2_patch_not_found_is_failure [OF rd synced act ev gone nxt]
  from th have 1: "fst (POST ?E sync_request ?W) = SyncFailed (HttpError 404)"
    by simp
  from th have 2: "tasks (snd (POST ?E sync_request ?W)) = tasks ?W"
    by blast
  from th have 3: "filter is_insert (requests (snd (POST ?E2 sync_request
                     (snd (POST ?E sync_request ?W))))) = filter is_insert (requests ?W)"
    by blast
  from 1 2 3 w show ?thesis by simp
qed

text \<open>
  Claim C10, as the code has it. The id is written back unconditionally; nothing compares
  the row with the value read. When two sync requests for the same task have both read
  the row before either writes, and both answer \<^verbatim>\<open>created\<close>, two inserts were sent and
  the row ends with the id of the second writer; the id of the first is held nowhere.
  (Requests served one after the other create once: claim C1.)
\<close>

theorem C10_interleaved_syncs_both_create:
  assumes run: "sync_interleaved env1 req1 env2 req2 w = ((Created e1, Created e2), w')"
    and r1: "body req1 = Some b1" "taskId b1 = Some tid"
    and r2: "body req2 = Some b2" "taskId b2 = Some tid"
  shows "\<exists>c1 ev1 c2 ev2 t.
           requests w' = requests w @ [events_insert c1 ev1, events_insert c2 ev2] \<and>
           tasks w' tid = Some t \<and> google_calendar_event_id t = Some e2"
proof -
  obtain x1 w1 where rd1: "POST_read env1 req1 w = (x1, w1)"
    by (cases "POST_read env1 req1 w")
  obtain x2 w2 where rd2: "POST_read env2 req2 w1 = (x2, w2)"
    by (cases "POST_read env2 req2 w1")
  from run rd1 POST_read_Inl [of env1 req1 w _ w1]
  obtain ctx1 where x1: "x1 = Inr ctx1"
    by (cases x1) (auto simp: sync_interleaved_def split: prod.splits)
  from run rd1 x1 rd2 POST_read_Inl [of env2 req2 w1 _ w2]
  obtain ctx2 where x2: "x2 = Inr ctx2"
    by (cases x2) (auto simp: sync_interleaved_def split: prod.splits)
  obtain w3 where wr1: "POST_write env1 ctx1 w2 = (Created e1, w3)"
    and wr2: "POST_write env2 ctx2 w3 = (Created e2, w')"
    using run rd1 x1 rd2 x2
    by (auto simp: sync_interleaved_def split: prod.splits)
  from POST_read_ctx [of env1 req1 w ctx1 w1] rd1 x1 r1
  have c1: "ctx_taskId ctx1 = tid" "tasks w tid = Some (ctx_task ctx1)"
    by auto
  from POST_read_ctx [of env2 req2 w1 ctx2 w2] rd2 x2 r2
  have c2: "ctx_taskId ctx2 = tid"
    by auto
  from POST_read_frame [OF rd1] POST_read_frame [OF rd2]
  have fr: "tasks w2 = tasks w" "requests w2 = requests w"
    by simp_all
  from POST_create_Created [OF POST_write_Created [OF wr1]]
  obtain ev1 where w3: "w3 = log_success ctx1 e1 ''create'' (set_event_id env1 tid (Some e1)
                  (w2\<lparr>requests := requests w2 @ [events_insert (ctx_calendar ctx1) ev1]\<rparr>))"
    using c1 by auto
  from POST_create_Created [OF POST_write_Created [OF wr2]]
  obtain ev2 where w4: "w' = log_success ctx2 e2 ''create'' (set_event_id env2 tid (Some e2)
                  (w3\<lparr>requests := requests w3 @ [events_insert (ctx_calendar ctx2) ev2]\<rparr>))"
    using c2 by auto
  have rq: "requests w' = requests w @ [events_insert (ctx_calendar ctx1) ev1,
                                        events_insert (ctx_calendar ctx2) ev2]"
    by (simp add: w4 w3 log_success_frame set_event_id_requests fr)
  have "tasks w' tid = Some ((ctx_task ctx1)\<lparr>google_calendar_event_id := Some e2,
                               updated_at := Some (now env2)\<rparr>)"
    by (simp add: w4 w3 log_success_frame set_event_id_def update_row_def fr c1)
  with rq show ?thesis by auto
qed

text \<open>
  The claim as stated fails: two sync requests for the unsynced task \<^verbatim>\<open>t1\<close>, interleaved
  after their reads, both answer \<^verbatim>\<open>created\<close>; two inserts were sent and the row holds
  the second id only.
\<close>

theorem C10_counterexample:
  "fst (sync_interleaved (host 0 grant (api_returns ''ev1'')) sync_request
          (host 0 grant (api_returns ''ev2'')) sync_request (world_of fresh_row task1))
     = (Created ''ev1'', Created ''ev2'')
   \<and> length (filter is_insert (requests (snd (sync_interleaved
          (host 0 grant (api_returns ''ev1'')) sync_request
          (host 0 grant (api_returns ''ev2'')) sync_request (world_of fresh_row task1))))) = 2
   \<and> map_option google_calendar_event_id (tasks (snd (sync_interleaved
          (host 0 grant (api_returns ''ev1'')) sync_request
          (host 0 grant (api_returns ''ev2'')) sync_request (world_of fresh_row task1))) ''t1'')
     = Some (Some ''ev2'')"
  by code_simp

theorem C10_witness:
  "fst (sync_interleaved (host 0 grant (api_returns ''ev1'')) sync_request
          (host 0 grant (api_returns ''ev2'')) sync_request (world_of fresh_row task1))
     = (Created ''ev1'', Created ''ev2'')
   \<and> length (requests (snd (sync_interleaved
          (host 0 grant (api_returns ''ev1'')) sync_request
          (host 0 grant (api_returns ''ev2'')) sync_request (world_of fresh_row task1)))) = 2
   \<and> length (filter is_insert (requests (snd (sync_interleaved
          (host 0 grant (api_returns ''ev1'')) sync_request
          (host 0 grant (api_returns ''ev2'')) sync_request (world_of fresh_row task1))))) = 2"
proof -
  let ?R = "sync_interleaved (host 0 grant (api_returns ''ev1'')) sync_request
          (host 0 grant (api_returns ''ev2'')) sync_request (world_of fresh_row task1)"
  have f: "fst ?R = (Created ''ev1'', Created ''ev2'')"
    by code_simp
  then have run: "?R = ((Created ''ev1'', Created ''ev2''), snd ?R)"
    by (metis prod.collapse)
  have b: "body sync_request = Some \<lparr>taskId = Some ''t1'', action = Some ''sync''\<rparr>"
    by (simp add: sync_request_def)
  have t: "taskId \<lparr>taskId = Some ''t1'', action = Some ''sync''\<rparr> = Some ''t1''"
    by simp
  have w: "requests (world_of fresh_row task1) = []"
    by (simp add: world_of_def)
  from C10_interleaved_syncs_both_create [OF run b t b t] w
  obtain c1 ev1 c2 ev2 where "requests (snd ?R) = [events_insert c1 ev1, events_insert c2 ev2]"
    by auto
  with f show ?thesis by simp
qed

section \<open>External event mapper: all-day and timed events\<close>

lemma takeWhile_whole:
  "CHR ''T'' \<notin> set s \<Longrightarrow> takeWhile (\<lambda>c. c \<noteq> CHR ''T'') s = s"
  by (induction s) auto

lemma formatDateForAllDay_takeWhile:
  "formatDateForAllDay s = takeWhile (\<lambda>c. c \<noteq> CHR ''T'') s"
  by (simp add: formatDateForAllDay_def takeWhile_whole)

lemma takeWhile_date_part:
  "CHR ''T'' \<notin> set p \<Longrightarrow> takeWhile (\<lambda>c. c \<noteq> CHR ''T'') (p @ CHR ''T'' # r) = p"
  by (induction p) auto

lemma takeWhile_no_T:
  "CHR ''T'' \<notin> set (takeWhile (\<lambda>c. c \<noteq> CHR ''T'') s)"
  by (induction s) auto

text \<open>
  Claim C9. A task with a non-empty due date and no due time (null or empty) maps, in the
  create and in the update request alike, to an all-day event: start and end carry only
  \<^verbatim>\<open>date\<close>, and that date is the text of the due date before its first \<^verbatim>\<open>T\<close>. So a due
  date with a time component \<^verbatim>\<open>p T r\<close> is cut to its date part \<open>p\<close>, the date sent never
  contains a \<^verbatim>\<open>T\<close>, and a due date without \<^verbatim>\<open>T\<close> is sent as it is.
\<close>

theorem C9_all_day_event:
  assumes "dueDate task = Some dd" and "dd \<noteq> []" and "\<not> truthy (dueTime task)"
  shows "\<exists>ev uv. createEvent env task = Inr ev \<and> updateEvent env task = Inr uv
     \<and> event_start ev = Some \<lparr>date = Some (takeWhile (\<lambda>c. c \<noteq> CHR ''T'') dd),
                              dateTime = None, timeZone = None\<rparr>
     \<and> event_end ev = event_start ev \<and> event_start uv = event_start ev
     \<and> event_end uv = event_start ev
     \<and> CHR ''T'' \<notin> set (takeWhile (\<lambda>c. c \<noteq> CHR ''T'') dd)
     \<and> (\<forall>p r. dd = p @ CHR ''T'' # r \<and> CHR ''T'' \<notin> set p
            \<longrightarrow> takeWhile (\<lambda>c. c \<noteq> CHR ''T'') dd = p)
     \<and> (CHR ''T'' \<notin> set dd \<longrightarrow> takeWhile (\<lambda>c. c \<noteq> CHR ''T'') dd = dd)"
proof -
  from assms have c: "createStartEnd env task = Inr (allDayStartEnd dd)"
    by (auto simp: createStartEnd_def truthy_def split: option.splits)
  from assms have u: "updateStartEnd env task = Inr (some_both (allDayStartEnd dd))"
    by (auto simp: updateStartEnd_def truthy_def split: option.splits)
  have d: "allDayStartEnd dd =
      (\<lparr>date = Some (takeWhile (\<lambda>c. c \<noteq> CHR ''T'') dd), dateTime = None, timeZone = None\<rparr>,
       \<lparr>date = Some (takeWhile (\<lambda>c. c \<noteq> CHR ''T'') dd), dateTime = None, timeZone = None\<rparr>)"
    by (simp add: allDayStartEnd_def allDay_def formatDateForAllDay_takeWhile Let_def)
  have p: "\<forall>p r. dd = p @ CHR ''T'' # r \<and> CHR ''T'' \<notin> set p
            \<longrightarrow> takeWhile (\<lambda>c. c \<noteq> CHR ''T'') dd = p"
    using takeWhile_date_part by blast
  have q: "CHR ''T'' \<notin> set dd \<longrightarrow> takeWhile (\<lambda>c. c \<noteq> CHR ''T'') dd = dd"
    by (simp add: takeWhile_whole)
  from c u d p q takeWhile_no_T [of dd] show ?thesis
    by (simp add: createEvent_def updateEvent_def some_both_def)
qed

theorem C9_witness:
  "map_sum id event_start
      (createEvent (host 0 grant api_not_found)
         (taskEvent (task1\<lparr>due_date := Some ''2025-03-10T00:00:00Z'', due_time := None\<rparr>)))
     = Inr (Some \<lparr>date = Some ''2025-03-10'', dateTime = None, timeZone = None\<rparr>)
   \<and> map_sum id event_end
      (updateEvent (host 0 grant api_not_found)
         (taskEvent (task1\<lparr>due_date := Some ''2025-03-10T00:00:00Z'', due_time := None\<rparr>)))
     = Inr (Some \<lparr>date = Some ''2025-03-10'', dateTime = None, timeZone = None\<rparr>)"
proof -
  let ?te = "taskEvent (task1\<lparr>due_date := Some ''2025-03-10T00:00:00Z'', due_time := None\<rparr>)"
  have a: "dueDate ?te = Some ''2025-03-10T00:00:00Z''" and a': "''2025-03-10T00:00:00Z'' \<noteq> []"
    by (simp_all add: taskEvent_def)
  have b: "\<not> truthy (dueTime ?te)"
    by (simp add: taskEvent_def truthy_def)
  have t: "takeWhile (\<lambda>c. c \<noteq> CHR ''T'') ''2025-03-10T00:00:00Z'' = ''2025-03-10''"
    by simp
  from C9_all_day_event [OF a a' b, of "host 0 grant api_not_found"]
  obtain ev uv where "createEvent (host 0 grant api_not_found) ?te = Inr ev"
    and "updateEvent (host 0 grant api_not_found) ?te = Inr uv"
    and "event_start ev = Some \<lparr>date = Some (takeWhile (\<lambda>c. c \<noteq> CHR ''T'') ''2025-03-10T00:00:00Z''),
                              dateTime = None, timeZone = None\<rparr>"
    and "event_end uv = event_start ev"
    by blast
  with t show ?thesis by simp
qed

text \<open>
  Claim C8 fails on the start. The task due on 2025-03-10 at 14:00 for 30 minutes, mapped
  on a host whose local time zone is UTC, gets the start 14:00 UTC and the end 14:30 UTC,
  both labelled Europe/Paris: the string \<^verbatim>\<open>2025-03-10T14:00:00\<close> carries no offset, so
  the host reads it in its own zone, and \<^verbatim>\<open>toISOString\<close> fixes that instant. In
  Europe/Paris, one hour ahead of UTC on that day, 14:00 is 13:00 UTC, which is what a
  host in that zone sends. The end is 30 minutes after the start on both hosts.
\<close>

theorem C8_start_follows_host_zone:
  "map_sum id event_start (createEvent (host 0 grant api_not_found) (taskEvent task1))
     = Inr (Some \<lparr>date = None, dateTime = Some ''2025-03-10T14:00:00.000Z'',
                  timeZone = Some ''Europe/Paris''\<rparr>)
   \<and> map_sum id event_end (createEvent (host 0 grant api_not_found) (taskEvent task1))
     = Inr (Some \<lparr>date = None, dateTime = Some ''2025-03-10T14:30:00.000Z'',
                  timeZone = Some ''Europe/Paris''\<rparr>)
   \<and> map_sum id event_start (updateEvent (host 0 grant api_not_found) (taskEvent task1))
     = Inr (Some \<lparr>date = None, dateTime = Some ''2025-03-10T14:00:00.000Z'',
                  timeZone = Some ''Europe/Paris''\<rparr>)
   \<and> map_sum id event_start (createEvent (host 3600000 grant api_not_found) (taskEvent task1))
     = Inr (Some \<lparr>date = None, dateTime = Some ''2025-03-10T13:00:00.000Z'',
                  timeZone = Some ''Europe/Paris''\<rparr>)
   \<and> map_sum id event_end (createEvent (host 3600000 grant api_not_found) (taskEvent task1))
     = Inr (Some \<lparr>date = None, dateTime = Some ''2025-03-10T13:30:00.000Z'',
                  timeZone = Some ''Europe/Paris''\<rparr>)"
  by code_simp

end
